theory Spec2Isabelle
  imports Main
begin

section \<open>Data model of \<^verbatim>\<open>wallet.go\<close>\<close>

text \<open>
  A Go byte slice is a list of bytes; \<^typ>\<open>char\<close> is an 8-bit character, so a
  \<^verbatim>\<open>[]byte\<close> and a Go \<^verbatim>\<open>string\<close> are both character lists. The \<^verbatim>\<open>nil\<close> slice is
  the empty list: the file never compares a slice with \<^verbatim>\<open>nil\<close>.
\<close>

type_synonym bytes = string

text \<open>
  A Go \<^verbatim>\<open>error\<close>. The file builds errors only with
  \<^verbatim>\<open>fmt.Errorf(format, tag)\<close>, where the format ends in \<^verbatim>\<open>%q\<close>: \<open>Errorf\<close> keeps the
  format and the operand that \<^verbatim>\<open>%q\<close> prints (quoted) into the message. Every other
  error comes from a collaborator and is \<open>Foreign\<close> with its message.
\<close>

datatype error = Errorf string string | Foreign string

text \<open>
  A Go function returning \<^verbatim>\<open>(types.Wallet, error)\<close> returns a pair of two values that
  may each be \<^verbatim>\<open>nil\<close>. A run of a function of the file either returns or panics.
\<close>

type_synonym 'w result = "'w option \<times> error option"

datatype 'a outcome = Return 'a | Panic string

text \<open>
  \<^verbatim>\<open>types.Store\<close>, as far as the file calls it: \<^verbatim>\<open>RetrieveWallet(name)\<close> returns
  \<^verbatim>\<open>([]byte, error)\<close>, and \<^verbatim>\<open>RetrieveWallets()\<close> returns a channel, taken here as the
  finite sequence of payloads received from it before it is closed.
\<close>

record Store =
  RetrieveWallet :: "string \<Rightarrow> bytes \<times> error option"
  RetrieveWallets :: "bytes list"

text \<open>\<^verbatim>\<open>type walletOptions struct\<close>; the encryptor is opaque to the file.\<close>

record 'e walletOptions =
  store :: Store
  encryptor :: 'e
  walletType :: string
  passphrase :: bytes

text \<open>
  \<^verbatim>\<open>type Option interface { apply(*walletOptions) }\<close>. The method is unexported, so
  the values of the interface are the closures that the four constructors of the file
  build; each constructor is kept with the value its closure captures, and
  \<open>applyOption\<close> is the closure's body acting on the pointed-to struct. The
  \<^verbatim>\<open>nil\<close> interface value, which no constructor builds, is not an option here.
\<close>

datatype 'e Option =
    WithStore Store
  | WithEncryptor 'e
  | WithPassphrase bytes
  | WithType string

fun applyOption :: "'e Option \<Rightarrow> 'e walletOptions \<Rightarrow> 'e walletOptions" where
  "applyOption (WithStore s) o' = o'\<lparr>store := s\<rparr>"
| "applyOption (WithEncryptor e) o' = o'\<lparr>encryptor := e\<rparr>"
| "applyOption (WithPassphrase p) o' = o'\<lparr>passphrase := p\<rparr>"
| "applyOption (WithType t) o' = o'\<lparr>walletType := t\<rparr>"

text \<open>\<^verbatim>\<open>for _, o := range opts { o.apply(&options) }\<close>\<close>

fun applyOptions :: "'e Option list \<Rightarrow> 'e walletOptions \<Rightarrow> 'e walletOptions" where
  "applyOptions [] options = options"
| "applyOptions (o' # opts) options = applyOptions opts (applyOption o' options)"

text \<open>\<^verbatim>\<open>type walletInfo struct\<close>; a \<^verbatim>\<open>uuid.UUID\<close> is sixteen bytes.\<close>

record walletInfo =
  ID :: bytes
  Name :: string
  Type :: string

text \<open>
  The local \<^verbatim>\<open>type walletExt struct { Wallet *walletInfo }\<close> of \<^verbatim>\<open>ImportWallet\<close>: the
  field is a pointer, \<open>None\<close> when \<^verbatim>\<open>nil\<close>.
\<close>

record walletExt =
  Wallet :: "walletInfo option"

text \<open>
  The package-level variables \<^verbatim>\<open>store\<close> and \<^verbatim>\<open>encryptor\<close>. They are declared in
  another file of the package; the functions below read them, so they are a parameter.
\<close>

record 'e globals =
  pkg_store :: Store
  pkg_encryptor :: 'e

text \<open>
  The collaborators the file calls: \<^verbatim>\<open>ecodec.Decrypt\<close>, \<^verbatim>\<open>json.Unmarshal\<close> at the two
  struct types it is used at (starting from the zero struct, giving the struct it has
  filled and the error), and the three entry points of each of the packages \<^verbatim>\<open>nd\<close> and
  \<^verbatim>\<open>hd\<close>. Each is assumed to return. What the variant packages write to a store is not
  part of this model: a \<^typ>\<open>Store\<close> is what one call reads from it.
\<close>

record ('w, 'e) collaborators =
  ecodec_Decrypt :: "bytes \<Rightarrow> bytes \<Rightarrow> bytes \<times> error option"
  json_Unmarshal_walletExt :: "bytes \<Rightarrow> walletExt \<times> error option"
  json_Unmarshal_walletInfo :: "bytes \<Rightarrow> walletInfo \<times> error option"
  nd_Import :: "bytes \<Rightarrow> bytes \<Rightarrow> Store \<Rightarrow> 'e \<Rightarrow> 'w result"
  hd_Import :: "bytes \<Rightarrow> bytes \<Rightarrow> Store \<Rightarrow> 'e \<Rightarrow> 'w result"
  nd_CreateWallet :: "string \<Rightarrow> Store \<Rightarrow> 'e \<Rightarrow> 'w result"
  hd_CreateWallet :: "string \<Rightarrow> bytes \<Rightarrow> Store \<Rightarrow> 'e \<Rightarrow> 'w result"
  nd_DeserializeWallet :: "bytes \<Rightarrow> Store \<Rightarrow> 'e \<Rightarrow> 'w result"
  hd_DeserializeWallet :: "bytes \<Rightarrow> Store \<Rightarrow> 'e \<Rightarrow> 'w result"

section \<open>The functions of \<^verbatim>\<open>wallet.go\<close>\<close>

text \<open>
  \<^verbatim>\<open>ImportWallet\<close>. The switch reads \<^verbatim>\<open>ext.Wallet.Type\<close> through the pointer
  \<^verbatim>\<open>ext.Wallet\<close> with no check: on a \<^verbatim>\<open>nil\<close> pointer the run panics.
\<close>

definition ImportWallet ::
  "'e globals \<Rightarrow> ('w, 'e) collaborators \<Rightarrow> bytes \<Rightarrow> bytes \<Rightarrow> 'w result outcome" where
  "ImportWallet g c encryptedData passphrase' =
    (let (data, err) = ecodec_Decrypt c encryptedData passphrase' in
     if err \<noteq> None then Return (None, err)
     else
       let (ext, err) = json_Unmarshal_walletExt c data in
       if err \<noteq> None then Return (None, err)
       else
         (case Wallet ext of
            None \<Rightarrow> Panic ''invalid memory address or nil pointer dereference''
          | Some info \<Rightarrow>
              if Type info = ''nd'' \<or> Type info = ''non-deterministic'' then
                Return (nd_Import c encryptedData passphrase' (pkg_store g) (pkg_encryptor g))
              else if Type info = ''hd'' \<or> Type info = ''hierarchical deterministic'' then
                Return (hd_Import c encryptedData passphrase' (pkg_store g) (pkg_encryptor g))
              else Return (None, Some (Errorf ''unsupported wallet type %q'' (Type info)))))"

text \<open>\<^verbatim>\<open>walletFromBytes\<close>: here \<^verbatim>\<open>info\<close> points to a fresh struct and is never \<^verbatim>\<open>nil\<close>.\<close>

definition walletFromBytes ::
  "'e globals \<Rightarrow> ('w, 'e) collaborators \<Rightarrow> bytes \<Rightarrow> 'w result outcome" where
  "walletFromBytes g c data =
    (let (info, err) = json_Unmarshal_walletInfo c data in
     if err \<noteq> None then Return (None, err)
     else if Type info = ''nd'' \<or> Type info = ''non-deterministic'' then
       Return (nd_DeserializeWallet c data (pkg_store g) (pkg_encryptor g))
     else if Type info = ''hd'' \<or> Type info = ''hierarchical deterministic'' then
       Return (hd_DeserializeWallet c data (pkg_store g) (pkg_encryptor g))
     else Return (None, Some (Errorf ''unsupported wallet type %q'' (Type info))))"

text \<open>
  The options of \<^verbatim>\<open>OpenWallet\<close> after its loop; the struct literal leaves
  \<^verbatim>\<open>walletType\<close> and \<^verbatim>\<open>passphrase\<close> at their zero values.
\<close>

definition OpenWallet_options :: "'e globals \<Rightarrow> 'e Option list \<Rightarrow> 'e walletOptions" where
  "OpenWallet_options g opts =
    applyOptions opts
      \<lparr>store = pkg_store g, encryptor = pkg_encryptor g, walletType = [], passphrase = []\<rparr>"

text \<open>
  \<^verbatim>\<open>OpenWallet\<close>. After the loop the function calls \<^verbatim>\<open>store.RetrieveWallet\<close> on the
  package-level variable and \<^verbatim>\<open>walletFromBytes(data)\<close>; \<^verbatim>\<open>options\<close> is not read again.
\<close>

definition OpenWallet ::
  "'e globals \<Rightarrow> ('w, 'e) collaborators \<Rightarrow> string \<Rightarrow> 'e Option list \<Rightarrow> 'w result outcome" where
  "OpenWallet g c name opts =
    (let options = OpenWallet_options g opts;
         (data, err) = RetrieveWallet (pkg_store g) name in
     if err \<noteq> None then Return (None, err)
     else walletFromBytes g c data)"

text \<open>The options of \<^verbatim>\<open>CreateWallet\<close> after its loop.\<close>

definition CreateWallet_options :: "'e globals \<Rightarrow> 'e Option list \<Rightarrow> 'e walletOptions" where
  "CreateWallet_options g opts =
    applyOptions opts
      \<lparr>store = pkg_store g, encryptor = pkg_encryptor g, walletType = ''nd'', passphrase = []\<rparr>"

definition CreateWallet ::
  "'e globals \<Rightarrow> ('w, 'e) collaborators \<Rightarrow> string \<Rightarrow> 'e Option list \<Rightarrow> 'w result outcome" where
  "CreateWallet g c name opts =
    (let options = CreateWallet_options g opts in
     if walletType options = ''nd'' \<or> walletType options = ''non-deterministic'' then
       Return (nd_CreateWallet c name (store options) (encryptor options))
     else if walletType options = ''hd'' \<or> walletType options = ''hierarchical deterministic'' then
       Return (hd_CreateWallet c name (passphrase options) (store options) (encryptor options))
     else Return (None, Some (Errorf ''unhandled wallet type %q'' (walletType options))))"

text \<open>
  \<^verbatim>\<open>Wallets\<close>. The channel \<^verbatim>\<open>ch\<close> is kept as the sequence of values sent on it so far
  and whether it has been closed. \<open>Wallets_range\<close> is the \<^verbatim>\<open>for ... range\<close> loop of
  the goroutine over the payloads the store yields, with a consumer that receives
  whatever is sent; \<open>Wallets\<close> is the goroutine run to its end.
\<close>

record 'w chan =
  sent :: "'w option list"
  closed :: bool

fun Wallets_range ::
  "'e globals \<Rightarrow> ('w, 'e) collaborators \<Rightarrow> bytes list \<Rightarrow> 'w chan \<Rightarrow> 'w chan outcome" where
  "Wallets_range g c [] ch = Return ch"
| "Wallets_range g c (data # rest) ch =
    (case walletFromBytes g c data of
       Panic m \<Rightarrow> Panic m
     | Return (wallet, err) \<Rightarrow>
         if err = None then Wallets_range g c rest (ch\<lparr>sent := sent ch @ [wallet]\<rparr>)
         else Wallets_range g c rest ch)"

definition Wallets :: "'e globals \<Rightarrow> ('w, 'e) collaborators \<Rightarrow> 'w chan outcome" where
  "Wallets g c =
    (case Wallets_range g c (RetrieveWallets (pkg_store g)) \<lparr>sent = [], closed = False\<rparr> of
       Panic m \<Rightarrow> Panic m
     | Return ch \<Rightarrow> Return (ch\<lparr>closed := True\<rparr>))"

section \<open>The goroutine of \<^verbatim>\<open>Wallets\<close> and a consumer that stops\<close>

text \<open>
  \<^verbatim>\<open>ch := make(chan types.Wallet, 1024)\<close> is a queue of at most 1024 values: a send
  blocks while the queue is full, a receive blocks while it is empty. The state of one
  call of \<^verbatim>\<open>Wallets\<close> and of its consumer: the payloads of the store whose loop
  iteration the goroutine has not completed, the queue, whether the goroutine has
  closed the channel and ended, the values the consumer has received, and how many
  more receives the consumer will make before it stops reading for good.
\<close>

record 'w run =
  pending :: "bytes list"
  buffer :: "'w option list"
  finished :: bool
  received :: "'w option list"
  reads_left :: nat

text \<open>
  One step of the goroutine: the next iteration of its loop, or \<^verbatim>\<open>close(ch)\<close> after the
  loop. It has no step when it has ended, and none while \<^verbatim>\<open>ch <- wallet\<close> finds the
  queue full: the send is the only statement of the loop body after the test, and
  nothing else is selected on.
\<close>

definition producer_step ::
  "'e globals \<Rightarrow> ('w, 'e) collaborators \<Rightarrow> 'w run \<Rightarrow> 'w run option" where
  "producer_step g c s =
    (if finished s then None
     else
       (case pending s of
          [] \<Rightarrow> Some (s\<lparr>finished := True\<rparr>)
        | data # rest \<Rightarrow>
            (case walletFromBytes g c data of
               Panic m \<Rightarrow> None
             | Return (wallet, err) \<Rightarrow>
                 if err = None then
                   (if length (buffer s) < 1024
                    then Some (s\<lparr>pending := rest, buffer := buffer s @ [wallet]\<rparr>)
                    else None)
                 else Some (s\<lparr>pending := rest\<rparr>))))"

text \<open>One step of the consumer: a receive, while it still reads and a value is queued.\<close>

definition consumer_step :: "'w run \<Rightarrow> 'w run option" where
  "consumer_step s =
    (case reads_left s of
       0 \<Rightarrow> None
     | Suc k \<Rightarrow>
         (case buffer s of
            [] \<Rightarrow> None
          | wallet # ws \<Rightarrow>
              Some (s\<lparr>buffer := ws, received := received s @ [wallet], reads_left := k\<rparr>)))"

text \<open>The scheduler may run either of the two whenever it has a step.\<close>

definition step :: "'e globals \<Rightarrow> ('w, 'e) collaborators \<Rightarrow> 'w run \<Rightarrow> 'w run \<Rightarrow> bool" where
  "step g c s s' \<longleftrightarrow> producer_step g c s = Some s' \<or> consumer_step s = Some s'"

text \<open>The state when \<^verbatim>\<open>Wallets\<close> returns, for a consumer that will make \<open>k\<close> receives.\<close>

definition Wallets_start :: "'e globals \<Rightarrow> nat \<Rightarrow> 'w run" where
  "Wallets_start g k =
    \<lparr>pending = RetrieveWallets (pkg_store g), buffer = [], finished = False,
     received = [], reads_left = k\<rparr>"

section \<open>Reading the results\<close>

text \<open>
  The four accepted spellings of the type tag, as the three switches of the file list
  them.
\<close>

definition nd_tags :: "string set" where
  "nd_tags = {''nd'', ''non-deterministic''}"

definition hd_tags :: "string set" where
  "hd_tags = {''hd'', ''hierarchical deterministic''}"

text \<open>
  The variant tag table as the specification words it (section 4.4): a fixed mapping
  from the accepted spellings to a canonical variant, which Create, Import and the
  shared deserialization path are to consult identically.
\<close>

datatype variant = ND | HD

definition spec_variant_of_tag :: "string \<Rightarrow> variant option" where
  "spec_variant_of_tag t =
    (if t \<in> {''nd'', ''non-deterministic''} then Some ND
     else if t \<in> {''hd'', ''hierarchical deterministic''} then Some HD
     else None)"

text \<open>
  The values that the options of a call write to each field, in call order.
\<close>

fun store_writes :: "'e Option list \<Rightarrow> Store list" where
  "store_writes [] = []"
| "store_writes (WithStore s # opts) = s # store_writes opts"
| "store_writes (_ # opts) = store_writes opts"

fun encryptor_writes :: "'e Option list \<Rightarrow> 'e list" where
  "encryptor_writes [] = []"
| "encryptor_writes (WithEncryptor e # opts) = e # encryptor_writes opts"
| "encryptor_writes (_ # opts) = encryptor_writes opts"

fun passphrase_writes :: "'e Option list \<Rightarrow> bytes list" where
  "passphrase_writes [] = []"
| "passphrase_writes (WithPassphrase p # opts) = p # passphrase_writes opts"
| "passphrase_writes (_ # opts) = passphrase_writes opts"

fun walletType_writes :: "'e Option list \<Rightarrow> string list" where
  "walletType_writes [] = []"
| "walletType_writes (WithType t # opts) = t # walletType_writes opts"
| "walletType_writes (_ # opts) = walletType_writes opts"

text \<open>
  A payload deserializes when \<^verbatim>\<open>walletFromBytes\<close> returns with a \<^verbatim>\<open>nil\<close> error, the
  test of the goroutine; \<open>wallet_of\<close> is the wallet it returns then.
\<close>

definition deserializes :: "'e globals \<Rightarrow> ('w, 'e) collaborators \<Rightarrow> bytes \<Rightarrow> bool" where
  "deserializes g c data =
    (case walletFromBytes g c data of Return (wallet, err) \<Rightarrow> err = None | Panic m \<Rightarrow> False)"

definition wallet_of :: "'e globals \<Rightarrow> ('w, 'e) collaborators \<Rightarrow> bytes \<Rightarrow> 'w option" where
  "wallet_of g c data =
    (case walletFromBytes g c data of Return (wallet, err) \<Rightarrow> wallet | Panic m \<Rightarrow> None)"

text \<open>How many of a sequence of payloads deserialize.\<close>

definition valid_count :: "'e globals \<Rightarrow> ('w, 'e) collaborators \<Rightarrow> bytes list \<Rightarrow> nat" where
  "valid_count g c ds = length (filter (deserializes g c) ds)"

text \<open>
  What every state of a run keeps: the wallets received, queued and still to come are
  the deserialized payloads of the store in its order, the consumer has made its
  receives out of \<open>k\<close>, the queue holds at most 1024 values, and the goroutine has
  ended only past the last payload.
\<close>

definition run_inv :: "'e globals \<Rightarrow> ('w, 'e) collaborators \<Rightarrow> nat \<Rightarrow> 'w run \<Rightarrow> bool" where
  "run_inv g c k s \<longleftrightarrow>
     received s @ buffer s @ map (wallet_of g c) (filter (deserializes g c) (pending s))
       = map (wallet_of g c) (filter (deserializes g c) (RetrieveWallets (pkg_store g)))
   \<and> length (received s) + reads_left s = k
   \<and> length (buffer s) \<le> 1024
   \<and> (finished s \<longrightarrow> pending s = [])"

definition run_measure :: "'w run \<Rightarrow> nat" where
  "run_measure s = 2 * length (pending s) + (if finished s then 0 else 1) + reads_left s"

section \<open>A small concrete world\<close>

text \<open>
  Stand-ins for the collaborators on a handful of payloads, used to run the functions.
  The two decoders give, for each payload listed, what \<^verbatim>\<open>json.Unmarshal\<close> gives for it
  at that struct type: an absent field keeps its zero value, an absent \<^verbatim>\<open>wallet\<close>
  object leaves the pointer \<^verbatim>\<open>nil\<close>, and text that is not JSON is an error.
\<close>

definition zero_UUID :: bytes where
  "zero_UUID = replicate 16 (CHR 0x00)"

definition payload_alice :: bytes where
  \<open>payload_alice = ''{"name":"alice","type":"nd"}''\<close>

definition payload_bob :: bytes where
  \<open>payload_bob = ''{"name":"bob","type":"hierarchical deterministic"}''\<close>

definition payload_carol :: bytes where
  \<open>payload_carol = ''{"name":"carol","type":"multisig"}''\<close>

definition payload_dave :: bytes where
  \<open>payload_dave = ''{"name":"dave"}''\<close>

definition payload_garbage :: bytes where
  \<open>payload_garbage = ''not json''\<close>

definition toy_Unmarshal_walletInfo :: "bytes \<Rightarrow> walletInfo \<times> error option" where
  "toy_Unmarshal_walletInfo data =
    (if data = payload_alice then
       (\<lparr>ID = zero_UUID, Name = ''alice'', Type = ''nd''\<rparr>, None)
     else if data = payload_bob then
       (\<lparr>ID = zero_UUID, Name = ''bob'', Type = ''hierarchical deterministic''\<rparr>, None)
     else if data = payload_carol then
       (\<lparr>ID = zero_UUID, Name = ''carol'', Type = ''multisig''\<rparr>, None)
     else if data = payload_dave then
       (\<lparr>ID = zero_UUID, Name = ''dave'', Type = []\<rparr>, None)
     else (\<lparr>ID = zero_UUID, Name = [], Type = []\<rparr>,
           Some (Foreign ''invalid character looking for beginning of value'')))"

definition export_alice :: bytes where
  \<open>export_alice = ''{"wallet":{"name":"alice","type":"non-deterministic"}}''\<close>

definition export_bob :: bytes where
  \<open>export_bob = ''{"wallet":{"name":"bob","type":"hd"}}''\<close>

definition export_carol :: bytes where
  \<open>export_carol = ''{"wallet":{"name":"carol","type":"multisig"}}''\<close>

definition export_empty :: bytes where
  \<open>export_empty = ''{}''\<close>

definition toy_Unmarshal_walletExt :: "bytes \<Rightarrow> walletExt \<times> error option" where
  "toy_Unmarshal_walletExt data =
    (if data = export_alice then
       (\<lparr>Wallet = Some \<lparr>ID = zero_UUID, Name = ''alice'', Type = ''non-deterministic''\<rparr>\<rparr>, None)
     else if data = export_bob then
       (\<lparr>Wallet = Some \<lparr>ID = zero_UUID, Name = ''bob'', Type = ''hd''\<rparr>\<rparr>, None)
     else if data = export_carol then
       (\<lparr>Wallet = Some \<lparr>ID = zero_UUID, Name = ''carol'', Type = ''multisig''\<rparr>\<rparr>, None)
     else if data = export_empty then (\<lparr>Wallet = None\<rparr>, None)
     else (\<lparr>Wallet = None\<rparr>,
           Some (Foreign ''invalid character looking for beginning of value'')))"

text \<open>
  A toy cipher: the ciphertext is the plaintext behind the marker \<open>enc:\<close>, and the only
  passphrase that opens it is \<open>secret\<close>.
\<close>

definition toy_Decrypt :: "bytes \<Rightarrow> bytes \<Rightarrow> bytes \<times> error option" where
  "toy_Decrypt encryptedData passphrase' =
    (if passphrase' = ''secret'' \<and> take 4 encryptedData = ''enc:''
     then (drop 4 encryptedData, None)
     else ([], Some (Foreign ''decryption failed'')))"

text \<open>
  A toy wallet records the routine that built it and every argument the routine was
  given; the store it was given is recorded by the number of payloads that store
  yields, which tells the stores of this section apart.
\<close>

datatype toy_wallet = Built string "string list" nat string

definition toy_collaborators :: "(toy_wallet, string) collaborators" where
  "toy_collaborators =
    \<lparr>ecodec_Decrypt = toy_Decrypt,
     json_Unmarshal_walletExt = toy_Unmarshal_walletExt,
     json_Unmarshal_walletInfo = toy_Unmarshal_walletInfo,
     nd_Import = (\<lambda>d p s e. (Some (Built ''nd.Import'' [d, p] (length (RetrieveWallets s)) e), None)),
     hd_Import = (\<lambda>d p s e. (Some (Built ''hd.Import'' [d, p] (length (RetrieveWallets s)) e), None)),
     nd_CreateWallet =
       (\<lambda>n s e. (Some (Built ''nd.CreateWallet'' [n] (length (RetrieveWallets s)) e), None)),
     hd_CreateWallet =
       (\<lambda>n p s e. (Some (Built ''hd.CreateWallet'' [n, p] (length (RetrieveWallets s)) e), None)),
     nd_DeserializeWallet =
       (\<lambda>d s e. (Some (Built ''nd.DeserializeWallet'' [d] (length (RetrieveWallets s)) e), None)),
     hd_DeserializeWallet =
       (\<lambda>d s e. (Some (Built ''hd.DeserializeWallet'' [d] (length (RetrieveWallets s)) e), None))\<rparr>"

definition store_A :: Store where
  "store_A =
    \<lparr>RetrieveWallet =
       (\<lambda>name. if name = ''alice'' then (payload_alice, None)
               else if name = ''carol'' then (payload_carol, None)
               else if name = ''dave'' then (payload_dave, None)
               else if name = ''eve'' then (payload_garbage, None)
               else ([], Some (Foreign ''wallet not found''))),
     RetrieveWallets =
       [payload_alice, payload_garbage, payload_carol, payload_bob, payload_dave]\<rparr>"

definition store_B :: Store where
  "store_B =
    \<lparr>RetrieveWallet =
       (\<lambda>name. if name = ''bob'' then (payload_bob, None)
               else ([], Some (Foreign ''wallet not found''))),
     RetrieveWallets = [payload_bob]\<rparr>"

definition toy_globals :: "string globals" where
  "toy_globals = \<lparr>pkg_store = store_A, pkg_encryptor = ''keystorev4''\<rparr>"

text \<open>
  A store that yields 1025 wallets, one more than the queue holds, and the state in
  which the goroutine has queued 1024 of them for a consumer that never receives.
\<close>

definition store_full :: Store where
  "store_full =
    \<lparr>RetrieveWallet = (\<lambda>name. ([], Some (Foreign ''wallet not found''))),
     RetrieveWallets = replicate 1025 payload_alice\<rparr>"

definition globals_full :: "string globals" where
  "globals_full = \<lparr>pkg_store = store_full, pkg_encryptor = ''keystorev4''\<rparr>"

definition wallet_alice_full :: "toy_wallet option" where
  "wallet_alice_full = Some (Built ''nd.DeserializeWallet'' [payload_alice] 1025 ''keystorev4'')"

definition blocked_run :: "toy_wallet run" where
  "blocked_run =
    \<lparr>pending = [payload_alice], buffer = replicate 1024 wallet_alice_full,
     finished = False, received = [], reads_left = 0\<rparr>"

section \<open>Option resolution\<close>

lemma applyOptions_append:
  "applyOptions (xs @ ys) b = applyOptions ys (applyOptions xs b)"
  by (induction xs arbitrary: b) simp_all

lemma store_applyOptions:
  "store (applyOptions opts b) = last (store b # store_writes opts)"
proof (induction opts arbitrary: b)
  case Nil
  show ?case by simp
next
  case (Cons o' opts)
  show ?case by (cases o') (simp_all add: Cons.IH)
qed

lemma encryptor_applyOptions:
  "encryptor (applyOptions opts b) = last (encryptor b # encryptor_writes opts)"
proof (induction opts arbitrary: b)
  case Nil
  show ?case by simp
next
  case (Cons o' opts)
  show ?case by (cases o') (simp_all add: Cons.IH)
qed

lemma passphrase_applyOptions:
  "passphrase (applyOptions opts b) = last (passphrase b # passphrase_writes opts)"
proof (induction opts arbitrary: b)
  case Nil
  show ?case by simp
next
  case (Cons o' opts)
  show ?case by (cases o') (simp_all add: Cons.IH)
qed

lemma walletType_applyOptions:
  "walletType (applyOptions opts b) = last (walletType b # walletType_writes opts)"
proof (induction opts arbitrary: b)
  case Nil
  show ?case by simp
next
  case (Cons o' opts)
  show ?case by (cases o') (simp_all add: Cons.IH)
qed

text \<open>
  C8. Applying one option writes one field of the options and leaves the three others
  as they were; after the loop of \<^verbatim>\<open>OpenWallet\<close> or \<^verbatim>\<open>CreateWallet\<close> over any
  sequence of options, on any base, each field holds the value of the last option of
  the sequence that writes it, and the base's value when none does.
\<close>

theorem option_one_field_last_write_wins:
  "(let r = applyOption o' b in
    case o' of
      WithStore s \<Rightarrow>
        store r = s \<and> encryptor r = encryptor b
        \<and> walletType r = walletType b \<and> passphrase r = passphrase b
    | WithEncryptor e \<Rightarrow>
        store r = store b \<and> encryptor r = e
        \<and> walletType r = walletType b \<and> passphrase r = passphrase b
    | WithPassphrase p \<Rightarrow>
        store r = store b \<and> encryptor r = encryptor b
        \<and> walletType r = walletType b \<and> passphrase r = p
    | WithType t \<Rightarrow>
        store r = store b \<and> encryptor r = encryptor b
        \<and> walletType r = t \<and> passphrase r = passphrase b)
   \<and> store (applyOptions opts b) = last (store b # store_writes opts)
   \<and> encryptor (applyOptions opts b) = last (encryptor b # encryptor_writes opts)
   \<and> passphrase (applyOptions opts b) = last (passphrase b # passphrase_writes opts)
   \<and> walletType (applyOptions opts b) = last (walletType b # walletType_writes opts)
   \<and> OpenWallet_options g opts =
       \<lparr>store = last (pkg_store g # store_writes opts),
        encryptor = last (pkg_encryptor g # encryptor_writes opts),
        walletType = last ([] # walletType_writes opts),
        passphrase = last ([] # passphrase_writes opts)\<rparr>
   \<and> CreateWallet_options g opts =
       \<lparr>store = last (pkg_store g # store_writes opts),
        encryptor = last (pkg_encryptor g # encryptor_writes opts),
        walletType = last (''nd'' # walletType_writes opts),
        passphrase = last ([] # passphrase_writes opts)\<rparr>"
proof -
  have one: "(let r = applyOption o' b in
    case o' of
      WithStore s \<Rightarrow>
        store r = s \<and> encryptor r = encryptor b
        \<and> walletType r = walletType b \<and> passphrase r = passphrase b
    | WithEncryptor e \<Rightarrow>
        store r = store b \<and> encryptor r = e
        \<and> walletType r = walletType b \<and> passphrase r = passphrase b
    | WithPassphrase p \<Rightarrow>
        store r = store b \<and> encryptor r = encryptor b
        \<and> walletType r = walletType b \<and> passphrase r = p
    | WithType t \<Rightarrow>
        store r = store b \<and> encryptor r = encryptor b
        \<and> walletType r = t \<and> passphrase r = passphrase b)"
    by (cases o') simp_all
  have opn: "OpenWallet_options g opts =
       \<lparr>store = last (pkg_store g # store_writes opts),
        encryptor = last (pkg_encryptor g # encryptor_writes opts),
        walletType = last ([] # walletType_writes opts),
        passphrase = last ([] # passphrase_writes opts)\<rparr>"
    unfolding OpenWallet_options_def
    by (rule walletOptions.equality)
       (simp_all add: store_applyOptions encryptor_applyOptions passphrase_applyOptions
          walletType_applyOptions)
  have crt: "CreateWallet_options g opts =
       \<lparr>store = last (pkg_store g # store_writes opts),
        encryptor = last (pkg_encryptor g # encryptor_writes opts),
        walletType = last (''nd'' # walletType_writes opts),
        passphrase = last ([] # passphrase_writes opts)\<rparr>"
    unfolding CreateWallet_options_def
    by (rule walletOptions.equality)
       (simp_all add: store_applyOptions encryptor_applyOptions passphrase_applyOptions
          walletType_applyOptions)
  from one opn crt show ?thesis
    by (simp only: store_applyOptions encryptor_applyOptions passphrase_applyOptions
          walletType_applyOptions simp_thms)
qed

section \<open>Dispatch on the type tag\<close>

lemma CreateWallet_nd:
  "walletType (CreateWallet_options g opts) \<in> nd_tags \<Longrightarrow>
   CreateWallet g c name opts =
     Return (nd_CreateWallet c name (store (CreateWallet_options g opts))
       (encryptor (CreateWallet_options g opts)))"
  by (auto simp: CreateWallet_def Let_def nd_tags_def)

lemma CreateWallet_hd:
  "walletType (CreateWallet_options g opts) \<in> hd_tags \<Longrightarrow>
   CreateWallet g c name opts =
     Return (hd_CreateWallet c name (passphrase (CreateWallet_options g opts))
       (store (CreateWallet_options g opts)) (encryptor (CreateWallet_options g opts)))"
  by (auto simp: CreateWallet_def Let_def hd_tags_def)

lemma CreateWallet_other:
  "walletType (CreateWallet_options g opts) \<notin> nd_tags \<union> hd_tags \<Longrightarrow>
   CreateWallet g c name opts =
     Return (None, Some (Errorf ''unhandled wallet type %q''
       (walletType (CreateWallet_options g opts))))"
  by (simp add: CreateWallet_def Let_def hd_tags_def nd_tags_def)

lemma walletFromBytes_unmarshal_error:
  "json_Unmarshal_walletInfo c data = (info, Some e) \<Longrightarrow>
   walletFromBytes g c data = Return (None, Some e)"
  by (simp add: walletFromBytes_def)

lemma walletFromBytes_nd:
  "json_Unmarshal_walletInfo c data = (info, None) \<Longrightarrow> Type info \<in> nd_tags \<Longrightarrow>
   walletFromBytes g c data =
     Return (nd_DeserializeWallet c data (pkg_store g) (pkg_encryptor g))"
  by (auto simp: walletFromBytes_def nd_tags_def)

lemma walletFromBytes_hd:
  "json_Unmarshal_walletInfo c data = (info, None) \<Longrightarrow> Type info \<in> hd_tags \<Longrightarrow>
   walletFromBytes g c data =
     Return (hd_DeserializeWallet c data (pkg_store g) (pkg_encryptor g))"
  by (auto simp: walletFromBytes_def hd_tags_def)

lemma walletFromBytes_other:
  "json_Unmarshal_walletInfo c data = (info, None) \<Longrightarrow> Type info \<notin> nd_tags \<union> hd_tags \<Longrightarrow>
   walletFromBytes g c data =
     Return (None, Some (Errorf ''unsupported wallet type %q'' (Type info)))"
  by (simp add: walletFromBytes_def hd_tags_def nd_tags_def)

lemma ImportWallet_decrypt_error:
  "ecodec_Decrypt c blob pw = (data, Some e) \<Longrightarrow>
   ImportWallet g c blob pw = Return (None, Some e)"
  by (simp add: ImportWallet_def)

lemma ImportWallet_unmarshal_error:
  "ecodec_Decrypt c blob pw = (data, None) \<Longrightarrow>
   json_Unmarshal_walletExt c data = (ext, Some e) \<Longrightarrow>
   ImportWallet g c blob pw = Return (None, Some e)"
  by (simp add: ImportWallet_def)

lemma ImportWallet_nil_pointer:
  "ecodec_Decrypt c blob pw = (data, None) \<Longrightarrow>
   json_Unmarshal_walletExt c data = (ext, None) \<Longrightarrow> Wallet ext = None \<Longrightarrow>
   ImportWallet g c blob pw = Panic ''invalid memory address or nil pointer dereference''"
  by (simp add: ImportWallet_def)

lemma ImportWallet_nd:
  "ecodec_Decrypt c blob pw = (data, None) \<Longrightarrow>
   json_Unmarshal_walletExt c data = (ext, None) \<Longrightarrow> Wallet ext = Some info \<Longrightarrow>
   Type info \<in> nd_tags \<Longrightarrow>
   ImportWallet g c blob pw = Return (nd_Import c blob pw (pkg_store g) (pkg_encryptor g))"
  by (auto simp: ImportWallet_def nd_tags_def)

lemma ImportWallet_hd:
  "ecodec_Decrypt c blob pw = (data, None) \<Longrightarrow>
   json_Unmarshal_walletExt c data = (ext, None) \<Longrightarrow> Wallet ext = Some info \<Longrightarrow>
   Type info \<in> hd_tags \<Longrightarrow>
   ImportWallet g c blob pw = Return (hd_Import c blob pw (pkg_store g) (pkg_encryptor g))"
  by (auto simp: ImportWallet_def hd_tags_def)

lemma ImportWallet_other:
  "ecodec_Decrypt c blob pw = (data, None) \<Longrightarrow>
   json_Unmarshal_walletExt c data = (ext, None) \<Longrightarrow> Wallet ext = Some info \<Longrightarrow>
   Type info \<notin> nd_tags \<union> hd_tags \<Longrightarrow>
   ImportWallet g c blob pw =
     Return (None, Some (Errorf ''unsupported wallet type %q'' (Type info)))"
  by (simp add: ImportWallet_def hd_tags_def nd_tags_def)

lemma spec_variant_cases:
  "(t \<in> nd_tags \<and> spec_variant_of_tag t = Some ND)
   \<or> (t \<in> hd_tags \<and> spec_variant_of_tag t = Some HD)
   \<or> (t \<notin> nd_tags \<union> hd_tags \<and> spec_variant_of_tag t = None)"
  by (auto simp: spec_variant_of_tag_def hd_tags_def nd_tags_def)

lemma OpenWallet_eq:
  "OpenWallet g c name opts =
    (case RetrieveWallet (pkg_store g) name of
       (data, None) \<Rightarrow> walletFromBytes g c data
     | (data, Some e) \<Rightarrow> Return (None, Some e))"
  by (auto simp: OpenWallet_def Let_def split: prod.splits option.splits)

lemma walletFromBytes_returns: "\<exists>w e. walletFromBytes g c data = Return (w, e)"
proof -
  obtain info e where u: "json_Unmarshal_walletInfo c data = (info, e)"
    by (cases "json_Unmarshal_walletInfo c data")
  obtain w1 e1 where n: "nd_DeserializeWallet c data (pkg_store g) (pkg_encryptor g) = (w1, e1)"
    by (cases "nd_DeserializeWallet c data (pkg_store g) (pkg_encryptor g)")
  obtain w2 e2 where h: "hd_DeserializeWallet c data (pkg_store g) (pkg_encryptor g) = (w2, e2)"
    by (cases "hd_DeserializeWallet c data (pkg_store g) (pkg_encryptor g)")
  show ?thesis by (simp add: walletFromBytes_def u n h)
qed

lemma OpenWallet_returns: "\<exists>w e. OpenWallet g c name opts = Return (w, e)"
proof (cases "RetrieveWallet (pkg_store g) name")
  case (Pair data err)
  show ?thesis
  proof (cases err)
    case None
    with Pair show ?thesis by (simp add: OpenWallet_eq walletFromBytes_returns)
  next
    case (Some e)
    with Pair show ?thesis by (simp add: OpenWallet_eq)
  qed
qed

lemma Wallets_range_eq:
  "Wallets_range g c ds ch =
     Return (ch\<lparr>sent := sent ch @ map (wallet_of g c) (filter (deserializes g c) ds)\<rparr>)"
proof (induction ds arbitrary: ch)
  case Nil
  show ?case by simp
next
  case (Cons d ds)
  obtain w e where r: "walletFromBytes g c d = Return (w, e)"
    using walletFromBytes_returns by blast
  show ?case
    by (cases e) (simp_all add: r Cons.IH deserializes_def wallet_of_def)
qed

lemma Wallets_eq:
  "Wallets g c =
     Return \<lparr>sent = map (wallet_of g c)
                     (filter (deserializes g c) (RetrieveWallets (pkg_store g))),
             closed = True\<rparr>"
  by (simp add: Wallets_def Wallets_range_eq)

lemma Wallets_range_skip:
  "\<not> deserializes g c data \<Longrightarrow>
   Wallets_range g c (data # rest) ch = Wallets_range g c rest ch"
  by (simp add: Wallets_range_eq)

text \<open>
  C3. Each of the three switches selects what the variant tag table of the
  specification gives for the tag: \<^verbatim>\<open>CreateWallet\<close> on the effective
  \<^verbatim>\<open>walletType\<close>, \<^verbatim>\<open>walletFromBytes\<close> on the type of the decoded payload, and
  \<^verbatim>\<open>ImportWallet\<close> on the type of the decoded envelope. So the same tag selects the
  same variant in all three; \<open>nd\<close> and \<open>non-deterministic\<close> select ND, \<open>hd\<close> and
  \<open>hierarchical deterministic\<close> select HD.
\<close>

theorem tag_dispatch_agrees:
  "CreateWallet g c name opts =
     (case spec_variant_of_tag (walletType (CreateWallet_options g opts)) of
        Some ND \<Rightarrow>
          Return (nd_CreateWallet c name (store (CreateWallet_options g opts))
            (encryptor (CreateWallet_options g opts)))
      | Some HD \<Rightarrow>
          Return (hd_CreateWallet c name (passphrase (CreateWallet_options g opts))
            (store (CreateWallet_options g opts)) (encryptor (CreateWallet_options g opts)))
      | None \<Rightarrow>
          Return (None, Some (Errorf ''unhandled wallet type %q''
            (walletType (CreateWallet_options g opts)))))
   \<and> (json_Unmarshal_walletInfo c data = (info, None) \<longrightarrow>
        walletFromBytes g c data =
          (case spec_variant_of_tag (Type info) of
             Some ND \<Rightarrow> Return (nd_DeserializeWallet c data (pkg_store g) (pkg_encryptor g))
           | Some HD \<Rightarrow> Return (hd_DeserializeWallet c data (pkg_store g) (pkg_encryptor g))
           | None \<Rightarrow> Return (None, Some (Errorf ''unsupported wallet type %q'' (Type info)))))
   \<and> (ecodec_Decrypt c blob pw = (plain, None)
        \<and> json_Unmarshal_walletExt c plain = (ext, None) \<and> Wallet ext = Some envelope \<longrightarrow>
        ImportWallet g c blob pw =
          (case spec_variant_of_tag (Type envelope) of
             Some ND \<Rightarrow> Return (nd_Import c blob pw (pkg_store g) (pkg_encryptor g))
           | Some HD \<Rightarrow> Return (hd_Import c blob pw (pkg_store g) (pkg_encryptor g))
           | None \<Rightarrow>
               Return (None, Some (Errorf ''unsupported wallet type %q'' (Type envelope)))))
   \<and> spec_variant_of_tag ''nd'' = Some ND
   \<and> spec_variant_of_tag ''non-deterministic'' = Some ND
   \<and> spec_variant_of_tag ''hd'' = Some HD
   \<and> spec_variant_of_tag ''hierarchical deterministic'' = Some HD"
proof -
  have create: "CreateWallet g c name opts =
     (case spec_variant_of_tag (walletType (CreateWallet_options g opts)) of
        Some ND \<Rightarrow>
          Return (nd_CreateWallet c name (store (CreateWallet_options g opts))
            (encryptor (CreateWallet_options g opts)))
      | Some HD \<Rightarrow>
          Return (hd_CreateWallet c name (passphrase (CreateWallet_options g opts))
            (store (CreateWallet_options g opts)) (encryptor (CreateWallet_options g opts)))
      | None \<Rightarrow>
          Return (None, Some (Errorf ''unhandled wallet type %q''
            (walletType (CreateWallet_options g opts)))))"
    using spec_variant_cases [of "walletType (CreateWallet_options g opts)"]
    by (auto simp: CreateWallet_nd CreateWallet_hd CreateWallet_other)
  have deser: "walletFromBytes g c data =
          (case spec_variant_of_tag (Type info) of
             Some ND \<Rightarrow> Return (nd_DeserializeWallet c data (pkg_store g) (pkg_encryptor g))
           | Some HD \<Rightarrow> Return (hd_DeserializeWallet c data (pkg_store g) (pkg_encryptor g))
           | None \<Rightarrow> Return (None, Some (Errorf ''unsupported wallet type %q'' (Type info))))"
    if "json_Unmarshal_walletInfo c data = (info, None)"
    using spec_variant_cases [of "Type info"] that
    by (auto simp: walletFromBytes_nd walletFromBytes_hd walletFromBytes_other)
  have imp: "ImportWallet g c blob pw =
          (case spec_variant_of_tag (Type envelope) of
             Some ND \<Rightarrow> Return (nd_Import c blob pw (pkg_store g) (pkg_encryptor g))
           | Some HD \<Rightarrow> Return (hd_Import c blob pw (pkg_store g) (pkg_encryptor g))
           | None \<Rightarrow>
               Return (None, Some (Errorf ''unsupported wallet type %q'' (Type envelope))))"
    if "ecodec_Decrypt c blob pw = (plain, None)"
      and "json_Unmarshal_walletExt c plain = (ext, None)" and "Wallet ext = Some envelope"
    using spec_variant_cases [of "Type envelope"] that
    by (auto simp: ImportWallet_nd ImportWallet_hd ImportWallet_other)
  have table: "spec_variant_of_tag ''nd'' = Some ND"
    "spec_variant_of_tag ''non-deterministic'' = Some ND"
    "spec_variant_of_tag ''hd'' = Some HD"
    "spec_variant_of_tag ''hierarchical deterministic'' = Some HD"
    by (simp_all add: spec_variant_of_tag_def)
  from create deser imp table show ?thesis by blast
qed

theorem tag_dispatch_agrees_witness:
  "json_Unmarshal_walletInfo toy_collaborators payload_bob
     = (\<lparr>ID = zero_UUID, Name = ''bob'', Type = ''hierarchical deterministic''\<rparr>, None)
   \<and> walletFromBytes toy_globals toy_collaborators payload_bob
     = Return (Some (Built ''hd.DeserializeWallet'' [payload_bob] 5 ''keystorev4''), None)
   \<and> ecodec_Decrypt toy_collaborators (''enc:'' @ export_alice) ''secret''
     = (export_alice, None)
   \<and> json_Unmarshal_walletExt toy_collaborators export_alice
     = (\<lparr>Wallet = Some \<lparr>ID = zero_UUID, Name = ''alice'', Type = ''non-deterministic''\<rparr>\<rparr>,
        None)
   \<and> ImportWallet toy_globals toy_collaborators (''enc:'' @ export_alice) ''secret''
     = Return (Some (Built ''nd.Import'' [''enc:'' @ export_alice, ''secret''] 5
         ''keystorev4''), None)
   \<and> CreateWallet toy_globals toy_collaborators ''zed'' [WithType ''hd'']
     = Return (Some (Built ''hd.CreateWallet'' [''zed'', []] 5 ''keystorev4''), None)"
proof -
  have u: "json_Unmarshal_walletInfo toy_collaborators payload_bob
     = (\<lparr>ID = zero_UUID, Name = ''bob'', Type = ''hierarchical deterministic''\<rparr>, None)"
    by (simp add: toy_collaborators_def toy_Unmarshal_walletInfo_def payload_bob_def
          payload_alice_def)
  have d: "ecodec_Decrypt toy_collaborators (''enc:'' @ export_alice) ''secret''
     = (export_alice, None)"
    by (simp add: toy_collaborators_def toy_Decrypt_def)
  have x: "json_Unmarshal_walletExt toy_collaborators export_alice
     = (\<lparr>Wallet = Some \<lparr>ID = zero_UUID, Name = ''alice'', Type = ''non-deterministic''\<rparr>\<rparr>,
        None)"
    by (simp add: toy_collaborators_def toy_Unmarshal_walletExt_def)
  note t = tag_dispatch_agrees [of toy_globals toy_collaborators "''zed''"
      "[WithType ''hd'']" payload_bob
      "\<lparr>ID = zero_UUID, Name = ''bob'', Type = ''hierarchical deterministic''\<rparr>"
      "''enc:'' @ export_alice" "''secret''" export_alice
      "\<lparr>Wallet = Some \<lparr>ID = zero_UUID, Name = ''alice'', Type = ''non-deterministic''\<rparr>\<rparr>"
      "\<lparr>ID = zero_UUID, Name = ''alice'', Type = ''non-deterministic''\<rparr>"]
  from t u d x show ?thesis
    by (simp add: spec_variant_of_tag_def CreateWallet_options_def toy_globals_def
          toy_collaborators_def store_A_def)
qed

text \<open>
  C4. A tag outside the four accepted spellings selects no variant: \<^verbatim>\<open>CreateWallet\<close>
  on such an effective \<^verbatim>\<open>walletType\<close>, \<^verbatim>\<open>walletFromBytes\<close> on a payload decoded with
  such a type, and \<^verbatim>\<open>ImportWallet\<close> on an envelope decoded with such a type each
  return a \<^verbatim>\<open>nil\<close> wallet and the error that \<^verbatim>\<open>fmt.Errorf\<close> builds from the tag.
\<close>

theorem unregistered_tag_is_an_error:
  assumes "t \<notin> nd_tags \<union> hd_tags"
  shows
    "(walletType (CreateWallet_options g opts) = t \<longrightarrow>
        CreateWallet g c name opts
          = Return (None, Some (Errorf ''unhandled wallet type %q'' t)))
     \<and> (json_Unmarshal_walletInfo c data = (info, None) \<and> Type info = t \<longrightarrow>
        walletFromBytes g c data
          = Return (None, Some (Errorf ''unsupported wallet type %q'' t)))
     \<and> (ecodec_Decrypt c blob pw = (plain, None)
        \<and> json_Unmarshal_walletExt c plain = (ext, None)
        \<and> Wallet ext = Some envelope \<and> Type envelope = t \<longrightarrow>
        ImportWallet g c blob pw
          = Return (None, Some (Errorf ''unsupported wallet type %q'' t)))"
  using assms
  by (auto simp: CreateWallet_other walletFromBytes_other ImportWallet_other)

theorem unregistered_tag_is_an_error_witness:
  "''multisig'' \<notin> nd_tags \<union> hd_tags
   \<and> walletType (CreateWallet_options toy_globals [WithType ''multisig'']) = ''multisig''
   \<and> CreateWallet toy_globals toy_collaborators ''zed'' [WithType ''multisig'']
     = Return (None, Some (Errorf ''unhandled wallet type %q'' ''multisig''))
   \<and> json_Unmarshal_walletInfo toy_collaborators payload_carol
     = (\<lparr>ID = zero_UUID, Name = ''carol'', Type = ''multisig''\<rparr>, None)
   \<and> walletFromBytes toy_globals toy_collaborators payload_carol
     = Return (None, Some (Errorf ''unsupported wallet type %q'' ''multisig''))
   \<and> ecodec_Decrypt toy_collaborators (''enc:'' @ export_carol) ''secret''
     = (export_carol, None)
   \<and> json_Unmarshal_walletExt toy_collaborators export_carol
     = (\<lparr>Wallet = Some \<lparr>ID = zero_UUID, Name = ''carol'', Type = ''multisig''\<rparr>\<rparr>, None)
   \<and> ImportWallet toy_globals toy_collaborators (''enc:'' @ export_carol) ''secret''
     = Return (None, Some (Errorf ''unsupported wallet type %q'' ''multisig''))"
proof -
  have t: "''multisig'' \<notin> nd_tags \<union> hd_tags"
    by (simp add: nd_tags_def hd_tags_def)
  have o: "walletType (CreateWallet_options toy_globals [WithType ''multisig'']) = ''multisig''"
    by (simp add: CreateWallet_options_def)
  have u: "json_Unmarshal_walletInfo toy_collaborators payload_carol
     = (\<lparr>ID = zero_UUID, Name = ''carol'', Type = ''multisig''\<rparr>, None)"
    by (simp add: toy_collaborators_def toy_Unmarshal_walletInfo_def payload_carol_def
          payload_alice_def payload_bob_def)
  have d: "ecodec_Decrypt toy_collaborators (''enc:'' @ export_carol) ''secret''
     = (export_carol, None)"
    by (simp add: toy_collaborators_def toy_Decrypt_def)
  have x: "json_Unmarshal_walletExt toy_collaborators export_carol
     = (\<lparr>Wallet = Some \<lparr>ID = zero_UUID, Name = ''carol'', Type = ''multisig''\<rparr>\<rparr>, None)"
    by (simp add: toy_collaborators_def toy_Unmarshal_walletExt_def export_carol_def
          export_alice_def export_bob_def)
  note r = unregistered_tag_is_an_error [OF t, of toy_globals "[WithType ''multisig'']"
      toy_collaborators "''zed''" payload_carol
      "\<lparr>ID = zero_UUID, Name = ''carol'', Type = ''multisig''\<rparr>"
      "''enc:'' @ export_carol" "''secret''" export_carol
      "\<lparr>Wallet = Some \<lparr>ID = zero_UUID, Name = ''carol'', Type = ''multisig''\<rparr>\<rparr>"
      "\<lparr>ID = zero_UUID, Name = ''carol'', Type = ''multisig''\<rparr>"]
  from r t o u d x show ?thesis by simp
qed

text \<open>
  C6. When the blob decrypts, the plaintext decodes, the envelope is present and its
  type is an accepted spelling, \<^verbatim>\<open>ImportWallet\<close> returns what the \<^verbatim>\<open>Import\<close> routine of
  the matching variant returns for the encrypted blob and the passphrase it was
  called with, together with the package's store and encryptor.
\<close>

theorem ImportWallet_forwards_original_blob:
  assumes "ecodec_Decrypt c blob pw = (plain, None)"
      and "json_Unmarshal_walletExt c plain = (ext, None)"
      and "Wallet ext = Some envelope"
  shows
    "(Type envelope \<in> nd_tags \<longrightarrow>
        ImportWallet g c blob pw
          = Return (nd_Import c blob pw (pkg_store g) (pkg_encryptor g)))
     \<and> (Type envelope \<in> hd_tags \<longrightarrow>
        ImportWallet g c blob pw
          = Return (hd_Import c blob pw (pkg_store g) (pkg_encryptor g)))"
  using assms by (simp add: ImportWallet_nd ImportWallet_hd)

theorem ImportWallet_forwards_original_blob_witness:
  "ecodec_Decrypt toy_collaborators (''enc:'' @ export_alice) ''secret''
     = (export_alice, None)
   \<and> json_Unmarshal_walletExt toy_collaborators export_alice
     = (\<lparr>Wallet = Some \<lparr>ID = zero_UUID, Name = ''alice'', Type = ''non-deterministic''\<rparr>\<rparr>,
        None)
   \<and> ''non-deterministic'' \<in> nd_tags
   \<and> ImportWallet toy_globals toy_collaborators (''enc:'' @ export_alice) ''secret''
     = Return (Some (Built ''nd.Import'' [''enc:'' @ export_alice, ''secret''] 5
         ''keystorev4''), None)
   \<and> ecodec_Decrypt toy_collaborators (''enc:'' @ export_bob) ''secret''
     = (export_bob, None)
   \<and> json_Unmarshal_walletExt toy_collaborators export_bob
     = (\<lparr>Wallet = Some \<lparr>ID = zero_UUID, Name = ''bob'', Type = ''hd''\<rparr>\<rparr>, None)
   \<and> ''hd'' \<in> hd_tags
   \<and> ImportWallet toy_globals toy_collaborators (''enc:'' @ export_bob) ''secret''
     = Return (Some (Built ''hd.Import'' [''enc:'' @ export_bob, ''secret''] 5
         ''keystorev4''), None)"
proof -
  have d1: "ecodec_Decrypt toy_collaborators (''enc:'' @ export_alice) ''secret''
     = (export_alice, None)"
    by (simp add: toy_collaborators_def toy_Decrypt_def)
  have x1: "json_Unmarshal_walletExt toy_collaborators export_alice
     = (\<lparr>Wallet = Some \<lparr>ID = zero_UUID, Name = ''alice'', Type = ''non-deterministic''\<rparr>\<rparr>,
        None)"
    by (simp add: toy_collaborators_def toy_Unmarshal_walletExt_def)
  have d2: "ecodec_Decrypt toy_collaborators (''enc:'' @ export_bob) ''secret''
     = (export_bob, None)"
    by (simp add: toy_collaborators_def toy_Decrypt_def)
  have x2: "json_Unmarshal_walletExt toy_collaborators export_bob
     = (\<lparr>Wallet = Some \<lparr>ID = zero_UUID, Name = ''bob'', Type = ''hd''\<rparr>\<rparr>, None)"
    by (simp add: toy_collaborators_def toy_Unmarshal_walletExt_def export_bob_def
          export_alice_def)
  have t: "''non-deterministic'' \<in> nd_tags" "''hd'' \<in> hd_tags"
    by (simp_all add: nd_tags_def hd_tags_def)
  note r1 = ImportWallet_forwards_original_blob [OF d1 x1, of _ toy_globals, simplified]
  note r2 = ImportWallet_forwards_original_blob [OF d2 x2, of _ toy_globals, simplified]
  from r1 r2 t d1 x1 d2 x2 show ?thesis
    by (simp add: toy_collaborators_def toy_globals_def store_A_def)
qed

text \<open>
  C7. With no options \<^verbatim>\<open>CreateWallet\<close> works on the type \<open>nd\<close>, an empty passphrase
  and the package's store and encryptor. On the type \<open>hd\<close> or
  \<open>hierarchical deterministic\<close> it returns what \<^verbatim>\<open>hd.CreateWallet\<close> returns for the
  name, the effective passphrase, store and encryptor; on \<open>nd\<close> or
  \<open>non-deterministic\<close> it returns what \<^verbatim>\<open>nd.CreateWallet\<close> returns for the name,
  the effective store and encryptor, and a passphrase option changes nothing.
\<close>

theorem CreateWallet_defaults_and_forwarding:
  "CreateWallet_options g [] =
     \<lparr>store = pkg_store g, encryptor = pkg_encryptor g, walletType = ''nd'',
      passphrase = []\<rparr>
   \<and> CreateWallet g c name [] = Return (nd_CreateWallet c name (pkg_store g) (pkg_encryptor g))
   \<and> (walletType (CreateWallet_options g opts) \<in> hd_tags \<longrightarrow>
        CreateWallet g c name opts =
          Return (hd_CreateWallet c name (passphrase (CreateWallet_options g opts))
            (store (CreateWallet_options g opts)) (encryptor (CreateWallet_options g opts))))
   \<and> (walletType (CreateWallet_options g opts) \<in> nd_tags \<longrightarrow>
        CreateWallet g c name opts =
          Return (nd_CreateWallet c name (store (CreateWallet_options g opts))
            (encryptor (CreateWallet_options g opts)))
        \<and> CreateWallet g c name (opts @ [WithPassphrase p]) = CreateWallet g c name opts)"
proof -
  have dflt: "CreateWallet_options g [] =
     \<lparr>store = pkg_store g, encryptor = pkg_encryptor g, walletType = ''nd'',
      passphrase = []\<rparr>"
    by (simp add: CreateWallet_options_def)
  have none: "CreateWallet g c name []
      = Return (nd_CreateWallet c name (pkg_store g) (pkg_encryptor g))"
    by (simp add: CreateWallet_def dflt)
  have more: "CreateWallet_options g (opts @ [WithPassphrase p])
      = (CreateWallet_options g opts)\<lparr>passphrase := p\<rparr>"
    by (simp add: CreateWallet_options_def applyOptions_append)
  have same: "CreateWallet g c name (opts @ [WithPassphrase p]) = CreateWallet g c name opts"
    if "walletType (CreateWallet_options g opts) \<in> nd_tags"
    using that by (auto simp: CreateWallet_def Let_def more nd_tags_def)
  from dflt none same show ?thesis
    by (simp add: CreateWallet_nd CreateWallet_hd)
qed

theorem CreateWallet_defaults_and_forwarding_witness:
  "walletType (CreateWallet_options toy_globals
       [WithType ''hd'', WithPassphrase ''pw'', WithStore store_B]) \<in> hd_tags
   \<and> CreateWallet toy_globals toy_collaborators ''zed''
       [WithType ''hd'', WithPassphrase ''pw'', WithStore store_B]
     = Return (Some (Built ''hd.CreateWallet'' [''zed'', ''pw''] 1 ''keystorev4''), None)
   \<and> walletType (CreateWallet_options toy_globals [WithEncryptor ''scrypt'']) \<in> nd_tags
   \<and> CreateWallet toy_globals toy_collaborators ''zed''
       [WithEncryptor ''scrypt'', WithPassphrase ''pw'']
     = Return (Some (Built ''nd.CreateWallet'' [''zed''] 5 ''scrypt''), None)"
proof -
  have h: "walletType (CreateWallet_options toy_globals
       [WithType ''hd'', WithPassphrase ''pw'', WithStore store_B]) \<in> hd_tags"
    by (simp add: CreateWallet_options_def hd_tags_def)
  have n: "walletType (CreateWallet_options toy_globals [WithEncryptor ''scrypt'']) \<in> nd_tags"
    by (simp add: CreateWallet_options_def nd_tags_def)
  note r1 = CreateWallet_defaults_and_forwarding [of toy_globals toy_collaborators "''zed''"
      "[WithType ''hd'', WithPassphrase ''pw'', WithStore store_B]"]
  note r2 = CreateWallet_defaults_and_forwarding [of toy_globals toy_collaborators "''zed''"
      "[WithEncryptor ''scrypt'']" "''pw''"]
  from r1 h have a: "CreateWallet toy_globals toy_collaborators ''zed''
       [WithType ''hd'', WithPassphrase ''pw'', WithStore store_B]
     = Return (Some (Built ''hd.CreateWallet'' [''zed'', ''pw''] 1 ''keystorev4''), None)"
    by (simp add: CreateWallet_options_def toy_collaborators_def toy_globals_def store_B_def)
  from r2 n have b: "CreateWallet toy_globals toy_collaborators ''zed''
       [WithEncryptor ''scrypt'', WithPassphrase ''pw'']
     = Return (Some (Built ''nd.CreateWallet'' [''zed''] 5 ''scrypt''), None)"
    by (simp add: CreateWallet_options_def toy_collaborators_def toy_globals_def store_A_def)
  from h n a b show ?thesis by simp
qed

section \<open>Deserialization, open and enumeration\<close>

text \<open>
  C10. \<^verbatim>\<open>walletFromBytes\<close> returns on every payload, and so do \<^verbatim>\<open>OpenWallet\<close> and
  the goroutine of \<^verbatim>\<open>Wallets\<close>, which closes the channel. On a payload that
  \<^verbatim>\<open>json.Unmarshal\<close> rejects, or that decodes with a type outside the accepted
  spellings (the empty type of a payload with no type field among them),
  \<^verbatim>\<open>walletFromBytes\<close> returns a \<^verbatim>\<open>nil\<close> wallet and an error, \<^verbatim>\<open>OpenWallet\<close> returns that
  error when the store holds the payload under the name, and the loop of \<^verbatim>\<open>Wallets\<close>
  goes on to the next payload with the channel as it was.
\<close>

theorem walletFromBytes_never_panics:
  "(\<exists>w e. walletFromBytes g c data = Return (w, e))
   \<and> (\<exists>w e. OpenWallet g c name opts = Return (w, e))
   \<and> (\<exists>ws. Wallets g c = Return \<lparr>sent = ws, closed = True\<rparr>)
   \<and> [] \<notin> nd_tags \<union> hd_tags
   \<and> (snd (json_Unmarshal_walletInfo c bad) \<noteq> None
        \<or> Type (fst (json_Unmarshal_walletInfo c bad)) \<notin> nd_tags \<union> hd_tags \<longrightarrow>
        (\<exists>e. walletFromBytes g c bad = Return (None, Some e)
           \<and> (RetrieveWallet (pkg_store g) name = (bad, None) \<longrightarrow>
                OpenWallet g c name opts = Return (None, Some e)))
        \<and> Wallets_range g c (bad # rest) ch = Wallets_range g c rest ch)"
proof -
  have empty: "[] \<notin> nd_tags \<union> hd_tags"
    by (simp add: nd_tags_def hd_tags_def)
  have bad: "(\<exists>e. walletFromBytes g c bad = Return (None, Some e)
           \<and> (RetrieveWallet (pkg_store g) name = (bad, None) \<longrightarrow>
                OpenWallet g c name opts = Return (None, Some e)))
        \<and> Wallets_range g c (bad # rest) ch = Wallets_range g c rest ch"
    if b: "snd (json_Unmarshal_walletInfo c bad) \<noteq> None
        \<or> Type (fst (json_Unmarshal_walletInfo c bad)) \<notin> nd_tags \<union> hd_tags"
  proof -
    obtain info err where u: "json_Unmarshal_walletInfo c bad = (info, err)"
      by (cases "json_Unmarshal_walletInfo c bad")
    have "\<exists>e. walletFromBytes g c bad = Return (None, Some e)"
    proof (cases err)
      case None
      with b u have "Type info \<notin> nd_tags \<union> hd_tags" by simp
      with u None show ?thesis by (simp add: walletFromBytes_other)
    next
      case (Some e)
      with u show ?thesis by (simp add: walletFromBytes_unmarshal_error)
    qed
    then obtain e where e: "walletFromBytes g c bad = Return (None, Some e)" ..
    then have "\<not> deserializes g c bad" by (simp add: deserializes_def)
    then have "Wallets_range g c (bad # rest) ch = Wallets_range g c rest ch"
      by (rule Wallets_range_skip)
    moreover have "RetrieveWallet (pkg_store g) name = (bad, None) \<longrightarrow>
                OpenWallet g c name opts = Return (None, Some e)"
      by (simp add: OpenWallet_eq e)
    ultimately show ?thesis using e by blast
  qed
  have w: "\<exists>ws. Wallets g c = Return \<lparr>sent = ws, closed = True\<rparr>"
    by (simp add: Wallets_eq)
  from empty bad w walletFromBytes_returns [of g c data] OpenWallet_returns [of g c name opts]
  show ?thesis by blast
qed

theorem walletFromBytes_never_panics_witness:
  "snd (json_Unmarshal_walletInfo toy_collaborators payload_garbage) \<noteq> None
   \<and> RetrieveWallet (pkg_store toy_globals) ''eve'' = (payload_garbage, None)
   \<and> OpenWallet toy_globals toy_collaborators ''eve'' []
     = Return (None, Some (Foreign ''invalid character looking for beginning of value''))
   \<and> Type (fst (json_Unmarshal_walletInfo toy_collaborators payload_dave)) = []
   \<and> RetrieveWallet (pkg_store toy_globals) ''dave'' = (payload_dave, None)
   \<and> OpenWallet toy_globals toy_collaborators ''dave'' []
     = Return (None, Some (Errorf ''unsupported wallet type %q'' []))"
proof -
  have u1: "json_Unmarshal_walletInfo toy_collaborators payload_garbage
      = (\<lparr>ID = zero_UUID, Name = [], Type = []\<rparr>,
         Some (Foreign ''invalid character looking for beginning of value''))"
    by (simp add: toy_collaborators_def toy_Unmarshal_walletInfo_def payload_garbage_def
          payload_alice_def payload_bob_def payload_carol_def payload_dave_def)
  have u2: "json_Unmarshal_walletInfo toy_collaborators payload_dave
      = (\<lparr>ID = zero_UUID, Name = ''dave'', Type = []\<rparr>, None)"
    by (simp add: toy_collaborators_def toy_Unmarshal_walletInfo_def
          payload_alice_def payload_bob_def payload_carol_def payload_dave_def)
  have s1: "RetrieveWallet (pkg_store toy_globals) ''eve'' = (payload_garbage, None)"
    by (simp add: toy_globals_def store_A_def)
  have s2: "RetrieveWallet (pkg_store toy_globals) ''dave'' = (payload_dave, None)"
    by (simp add: toy_globals_def store_A_def)
  have f1: "walletFromBytes toy_globals toy_collaborators payload_garbage
      = Return (None, Some (Foreign ''invalid character looking for beginning of value''))"
    using u1 by (rule walletFromBytes_unmarshal_error)
  have f2: "walletFromBytes toy_globals toy_collaborators payload_dave
      = Return (None, Some (Errorf ''unsupported wallet type %q'' []))"
    using walletFromBytes_other [OF u2] by (simp add: nd_tags_def hd_tags_def)
  note r1 = walletFromBytes_never_panics [of toy_globals toy_collaborators _ "''eve''" "[]"
      payload_garbage]
  note r2 = walletFromBytes_never_panics [of toy_globals toy_collaborators _ "''dave''" "[]"
      payload_dave]
  from r1 u1 s1 f1 have a: "OpenWallet toy_globals toy_collaborators ''eve'' []
     = Return (None, Some (Foreign ''invalid character looking for beginning of value''))"
    by auto
  from r2 u2 s2 f2 have b: "OpenWallet toy_globals toy_collaborators ''dave'' []
     = Return (None, Some (Errorf ''unsupported wallet type %q'' []))"
    by auto
  from a b u1 u2 s1 s2 show ?thesis by simp
qed

lemma deserializes_iff:
  "deserializes g c data \<longleftrightarrow>
     snd (json_Unmarshal_walletInfo c data) = None
     \<and> (Type (fst (json_Unmarshal_walletInfo c data)) \<in> nd_tags
          \<and> snd (nd_DeserializeWallet c data (pkg_store g) (pkg_encryptor g)) = None
        \<or> Type (fst (json_Unmarshal_walletInfo c data)) \<in> hd_tags
          \<and> snd (hd_DeserializeWallet c data (pkg_store g) (pkg_encryptor g)) = None)"
proof -
  obtain info err where u: "json_Unmarshal_walletInfo c data = (info, err)"
    by (cases "json_Unmarshal_walletInfo c data")
  obtain w1 e1 where n: "nd_DeserializeWallet c data (pkg_store g) (pkg_encryptor g) = (w1, e1)"
    by (cases "nd_DeserializeWallet c data (pkg_store g) (pkg_encryptor g)")
  obtain w2 e2 where h: "hd_DeserializeWallet c data (pkg_store g) (pkg_encryptor g) = (w2, e2)"
    by (cases "hd_DeserializeWallet c data (pkg_store g) (pkg_encryptor g)")
  show ?thesis
    by (auto simp: deserializes_def walletFromBytes_def u n h nd_tags_def hd_tags_def)
qed

lemma wallet_of_nd:
  "snd (json_Unmarshal_walletInfo c data) = None \<Longrightarrow>
   Type (fst (json_Unmarshal_walletInfo c data)) \<in> nd_tags \<Longrightarrow>
   wallet_of g c data = fst (nd_DeserializeWallet c data (pkg_store g) (pkg_encryptor g))"
proof -
  assume a: "snd (json_Unmarshal_walletInfo c data) = None"
    and t: "Type (fst (json_Unmarshal_walletInfo c data)) \<in> nd_tags"
  obtain info where u: "json_Unmarshal_walletInfo c data = (info, None)"
    using a by (cases "json_Unmarshal_walletInfo c data") simp
  from t u have "Type info \<in> nd_tags" by simp
  with u show ?thesis
    by (simp add: wallet_of_def walletFromBytes_nd split: prod.splits)
qed

lemma wallet_of_hd:
  "snd (json_Unmarshal_walletInfo c data) = None \<Longrightarrow>
   Type (fst (json_Unmarshal_walletInfo c data)) \<in> hd_tags \<Longrightarrow>
   wallet_of g c data = fst (hd_DeserializeWallet c data (pkg_store g) (pkg_encryptor g))"
proof -
  assume a: "snd (json_Unmarshal_walletInfo c data) = None"
    and t: "Type (fst (json_Unmarshal_walletInfo c data)) \<in> hd_tags"
  obtain info where u: "json_Unmarshal_walletInfo c data = (info, None)"
    using a by (cases "json_Unmarshal_walletInfo c data") simp
  from t u have "Type info \<in> hd_tags" by simp
  with u show ?thesis
    by (simp add: wallet_of_def walletFromBytes_hd split: prod.splits)
qed

text \<open>
  C2. The goroutine of \<^verbatim>\<open>Wallets\<close> sends, in the order in which the store yields the
  payloads, the wallet of each payload that deserializes and nothing for the others,
  and then closes the channel: the channel carries wallets only, so no error reaches
  the consumer. A payload deserializes exactly when \<^verbatim>\<open>json.Unmarshal\<close> accepts it,
  its type is an accepted spelling and \<^verbatim>\<open>DeserializeWallet\<close> of the matching variant
  returns no error for it; a payload that \<^verbatim>\<open>json.Unmarshal\<close> rejects, or whose type
  is not an accepted spelling, does not. The wallet sent for a payload is the one that
  \<^verbatim>\<open>DeserializeWallet\<close> of the matching variant returns for the payload, the
  package's store and the package's encryptor.
\<close>

theorem Wallets_yields_deserialized_in_order:
  "Wallets g c =
     Return \<lparr>sent = map (wallet_of g c)
                     (filter (deserializes g c) (RetrieveWallets (pkg_store g))),
             closed = True\<rparr>
   \<and> (deserializes g c data \<longleftrightarrow>
        snd (json_Unmarshal_walletInfo c data) = None
        \<and> (Type (fst (json_Unmarshal_walletInfo c data)) \<in> nd_tags
             \<and> snd (nd_DeserializeWallet c data (pkg_store g) (pkg_encryptor g)) = None
           \<or> Type (fst (json_Unmarshal_walletInfo c data)) \<in> hd_tags
             \<and> snd (hd_DeserializeWallet c data (pkg_store g) (pkg_encryptor g)) = None))
   \<and> (snd (json_Unmarshal_walletInfo c data) \<noteq> None \<longrightarrow> \<not> deserializes g c data)
   \<and> (Type (fst (json_Unmarshal_walletInfo c data)) \<notin> nd_tags \<union> hd_tags \<longrightarrow>
        \<not> deserializes g c data)
   \<and> (snd (json_Unmarshal_walletInfo c data) = None
        \<and> Type (fst (json_Unmarshal_walletInfo c data)) \<in> nd_tags \<longrightarrow>
        wallet_of g c data
          = fst (nd_DeserializeWallet c data (pkg_store g) (pkg_encryptor g)))
   \<and> (snd (json_Unmarshal_walletInfo c data) = None
        \<and> Type (fst (json_Unmarshal_walletInfo c data)) \<in> hd_tags \<longrightarrow>
        wallet_of g c data
          = fst (hd_DeserializeWallet c data (pkg_store g) (pkg_encryptor g)))"
proof -
  note i = deserializes_iff [of g c data]
  from i have bad:
    "snd (json_Unmarshal_walletInfo c data) \<noteq> None \<longrightarrow> \<not> deserializes g c data"
    by simp
  from i have other:
    "Type (fst (json_Unmarshal_walletInfo c data)) \<notin> nd_tags \<union> hd_tags \<longrightarrow>
        \<not> deserializes g c data"
    by auto
  have nd: "snd (json_Unmarshal_walletInfo c data) = None
        \<and> Type (fst (json_Unmarshal_walletInfo c data)) \<in> nd_tags \<longrightarrow>
        wallet_of g c data
          = fst (nd_DeserializeWallet c data (pkg_store g) (pkg_encryptor g))"
    by (simp add: wallet_of_nd)
  have hd: "snd (json_Unmarshal_walletInfo c data) = None
        \<and> Type (fst (json_Unmarshal_walletInfo c data)) \<in> hd_tags \<longrightarrow>
        wallet_of g c data
          = fst (hd_DeserializeWallet c data (pkg_store g) (pkg_encryptor g))"
    by (simp add: wallet_of_hd)
  show ?thesis
    by (intro conjI) (rule Wallets_eq, rule i, rule bad, rule other, rule nd, rule hd)
qed

theorem Wallets_yields_deserialized_in_order_witness:
  "RetrieveWallets (pkg_store toy_globals)
     = [payload_alice, payload_garbage, payload_carol, payload_bob, payload_dave]
   \<and> deserializes toy_globals toy_collaborators payload_alice
   \<and> snd (json_Unmarshal_walletInfo toy_collaborators payload_garbage) \<noteq> None
   \<and> \<not> deserializes toy_globals toy_collaborators payload_garbage
   \<and> Type (fst (json_Unmarshal_walletInfo toy_collaborators payload_carol)) \<notin> nd_tags \<union> hd_tags
   \<and> \<not> deserializes toy_globals toy_collaborators payload_carol
   \<and> deserializes toy_globals toy_collaborators payload_bob
   \<and> Type (fst (json_Unmarshal_walletInfo toy_collaborators payload_dave)) \<notin> nd_tags \<union> hd_tags
   \<and> \<not> deserializes toy_globals toy_collaborators payload_dave
   \<and> Wallets toy_globals toy_collaborators =
       Return \<lparr>sent = [Some (Built ''nd.DeserializeWallet'' [payload_alice] 5 ''keystorev4''),
                       Some (Built ''hd.DeserializeWallet'' [payload_bob] 5 ''keystorev4'')],
               closed = True\<rparr>"
proof -
  have ys: "RetrieveWallets (pkg_store toy_globals)
     = [payload_alice, payload_garbage, payload_carol, payload_bob, payload_dave]"
    by (simp add: toy_globals_def store_A_def)
  have ua: "json_Unmarshal_walletInfo toy_collaborators payload_alice
      = (\<lparr>ID = zero_UUID, Name = ''alice'', Type = ''nd''\<rparr>, None)"
    by (simp add: toy_collaborators_def toy_Unmarshal_walletInfo_def)
  have ub: "json_Unmarshal_walletInfo toy_collaborators payload_bob
      = (\<lparr>ID = zero_UUID, Name = ''bob'', Type = ''hierarchical deterministic''\<rparr>, None)"
    by (simp add: toy_collaborators_def toy_Unmarshal_walletInfo_def payload_bob_def
          payload_alice_def)
  have uc: "json_Unmarshal_walletInfo toy_collaborators payload_carol
      = (\<lparr>ID = zero_UUID, Name = ''carol'', Type = ''multisig''\<rparr>, None)"
    by (simp add: toy_collaborators_def toy_Unmarshal_walletInfo_def payload_carol_def
          payload_alice_def payload_bob_def)
  have ud: "json_Unmarshal_walletInfo toy_collaborators payload_dave
      = (\<lparr>ID = zero_UUID, Name = ''dave'', Type = []\<rparr>, None)"
    by (simp add: toy_collaborators_def toy_Unmarshal_walletInfo_def
          payload_alice_def payload_bob_def payload_carol_def payload_dave_def)
  have ug: "json_Unmarshal_walletInfo toy_collaborators payload_garbage
      = (\<lparr>ID = zero_UUID, Name = [], Type = []\<rparr>,
         Some (Foreign ''invalid character looking for beginning of value''))"
    by (simp add: toy_collaborators_def toy_Unmarshal_walletInfo_def payload_garbage_def
          payload_alice_def payload_bob_def payload_carol_def payload_dave_def)
  have na: "nd_DeserializeWallet toy_collaborators payload_alice (pkg_store toy_globals)
        (pkg_encryptor toy_globals)
      = (Some (Built ''nd.DeserializeWallet'' [payload_alice] 5 ''keystorev4''), None)"
    by (simp add: toy_collaborators_def toy_globals_def store_A_def)
  have hb: "hd_DeserializeWallet toy_collaborators payload_bob (pkg_store toy_globals)
        (pkg_encryptor toy_globals)
      = (Some (Built ''hd.DeserializeWallet'' [payload_bob] 5 ''keystorev4''), None)"
    by (simp add: toy_collaborators_def toy_globals_def store_A_def)
  have tags: "''nd'' \<in> nd_tags" "''hierarchical deterministic'' \<in> hd_tags"
    "''multisig'' \<notin> nd_tags \<union> hd_tags" "[] \<notin> nd_tags \<union> hd_tags"
    by (simp_all add: nd_tags_def hd_tags_def)
  note ta = Wallets_yields_deserialized_in_order [of toy_globals toy_collaborators payload_alice]
  note tb = Wallets_yields_deserialized_in_order [of toy_globals toy_collaborators payload_bob]
  note tc = Wallets_yields_deserialized_in_order [of toy_globals toy_collaborators payload_carol]
  note td = Wallets_yields_deserialized_in_order [of toy_globals toy_collaborators payload_dave]
  note tg = Wallets_yields_deserialized_in_order [of toy_globals toy_collaborators payload_garbage]
  from ta ua na tags have da: "deserializes toy_globals toy_collaborators payload_alice"
    and wa: "wallet_of toy_globals toy_collaborators payload_alice
      = Some (Built ''nd.DeserializeWallet'' [payload_alice] 5 ''keystorev4'')"
    by simp_all
  from tb ub hb tags have db: "deserializes toy_globals toy_collaborators payload_bob"
    and wb: "wallet_of toy_globals toy_collaborators payload_bob
      = Some (Built ''hd.DeserializeWallet'' [payload_bob] 5 ''keystorev4'')"
    by simp_all
  from tc uc tags have dc: "\<not> deserializes toy_globals toy_collaborators payload_carol"
    by simp
  from td ud tags have dd: "\<not> deserializes toy_globals toy_collaborators payload_dave"
    by simp
  from tg ug have dg: "\<not> deserializes toy_globals toy_collaborators payload_garbage"
    by simp
  from ta have "Wallets toy_globals toy_collaborators =
     Return \<lparr>sent = map (wallet_of toy_globals toy_collaborators)
                     (filter (deserializes toy_globals toy_collaborators)
                        (RetrieveWallets (pkg_store toy_globals))),
             closed = True\<rparr>"
    by (rule conjunct1)
  then have w: "Wallets toy_globals toy_collaborators =
       Return \<lparr>sent = [Some (Built ''nd.DeserializeWallet'' [payload_alice] 5 ''keystorev4''),
                       Some (Built ''hd.DeserializeWallet'' [payload_bob] 5 ''keystorev4'')],
               closed = True\<rparr>"
    by (simp add: ys da db dc dd dg wa wb)
  from ys da db dc dd dg w ug uc ud tags show ?thesis by simp
qed

lemma OpenWallet_ignores_options: "OpenWallet g c name opts = OpenWallet g c name []"
  by (simp add: OpenWallet_eq)

text \<open>
  C1. \<^verbatim>\<open>OpenWallet\<close> with a store and an encryptor given as options. The store of the
  effective options holds the wallet \<open>bob\<close> and the package's store does not: the call
  returns the error of the package's store. The package's store holds \<open>alice\<close>: the
  call returns the wallet deserialized against the package's store (the one yielding
  five payloads) and the package's encryptor \<open>keystorev4\<close>, not the store and the
  encryptor \<open>scrypt\<close> of the effective options.
\<close>

theorem OpenWallet_reads_package_store:
  "store (OpenWallet_options toy_globals [WithStore store_B, WithEncryptor ''scrypt''])
     = store_B
   \<and> encryptor (OpenWallet_options toy_globals [WithStore store_B, WithEncryptor ''scrypt''])
     = ''scrypt''
   \<and> RetrieveWallet store_B ''bob'' = (payload_bob, None)
   \<and> OpenWallet toy_globals toy_collaborators ''bob''
       [WithStore store_B, WithEncryptor ''scrypt'']
     = Return (None, Some (Foreign ''wallet not found''))
   \<and> OpenWallet toy_globals toy_collaborators ''alice''
       [WithStore store_B, WithEncryptor ''scrypt'']
     = Return (Some (Built ''nd.DeserializeWallet'' [payload_alice] 5 ''keystorev4''), None)"
proof -
  have o: "store (OpenWallet_options toy_globals [WithStore store_B, WithEncryptor ''scrypt''])
     = store_B"
    "encryptor (OpenWallet_options toy_globals [WithStore store_B, WithEncryptor ''scrypt''])
     = ''scrypt''"
    by (simp_all add: OpenWallet_options_def)
  have b: "RetrieveWallet store_B ''bob'' = (payload_bob, None)"
    by (simp add: store_B_def)
  have u: "json_Unmarshal_walletInfo toy_collaborators payload_alice
      = (\<lparr>ID = zero_UUID, Name = ''alice'', Type = ''nd''\<rparr>, None)"
    by (simp add: toy_collaborators_def toy_Unmarshal_walletInfo_def)
  have f: "walletFromBytes toy_globals toy_collaborators payload_alice
      = Return (Some (Built ''nd.DeserializeWallet'' [payload_alice] 5 ''keystorev4''), None)"
    using walletFromBytes_nd [OF u, of toy_globals]
    by (simp add: nd_tags_def toy_collaborators_def toy_globals_def store_A_def)
  have r1: "OpenWallet toy_globals toy_collaborators ''bob''
       [WithStore store_B, WithEncryptor ''scrypt'']
     = Return (None, Some (Foreign ''wallet not found''))"
    by (simp add: OpenWallet_eq toy_globals_def store_A_def)
  have s: "RetrieveWallet (pkg_store toy_globals) ''alice'' = (payload_alice, None)"
    by (simp add: toy_globals_def store_A_def)
  have r2: "OpenWallet toy_globals toy_collaborators ''alice''
       [WithStore store_B, WithEncryptor ''scrypt'']
     = Return (Some (Built ''nd.DeserializeWallet'' [payload_alice] 5 ''keystorev4''), None)"
    by (simp add: OpenWallet_eq s f)
  from o b r1 r2 show ?thesis by simp
qed

section \<open>Import of a plaintext with no envelope\<close>

text \<open>
  C5. \<^verbatim>\<open>ImportWallet\<close> on a blob that decrypts to the JSON object \<open>{}\<close>. The
  decryption succeeds and \<^verbatim>\<open>json.Unmarshal\<close> accepts the object, leaving the pointer
  \<^verbatim>\<open>ext.Wallet\<close> at \<^verbatim>\<open>nil\<close>; the switch then reads \<^verbatim>\<open>ext.Wallet.Type\<close> and the call
  panics instead of returning an error.
\<close>

theorem ImportWallet_panics_without_envelope:
  "ecodec_Decrypt toy_collaborators (''enc:'' @ export_empty) ''secret''
     = (export_empty, None)
   \<and> json_Unmarshal_walletExt toy_collaborators export_empty = (\<lparr>Wallet = None\<rparr>, None)
   \<and> ImportWallet toy_globals toy_collaborators (''enc:'' @ export_empty) ''secret''
     = Panic ''invalid memory address or nil pointer dereference''"
proof -
  have d: "ecodec_Decrypt toy_collaborators (''enc:'' @ export_empty) ''secret''
     = (export_empty, None)"
    by (simp add: toy_collaborators_def toy_Decrypt_def)
  have x: "json_Unmarshal_walletExt toy_collaborators export_empty = (\<lparr>Wallet = None\<rparr>, None)"
    by (simp add: toy_collaborators_def toy_Unmarshal_walletExt_def export_empty_def
          export_alice_def export_bob_def export_carol_def)
  have "ImportWallet toy_globals toy_collaborators (''enc:'' @ export_empty) ''secret''
     = Panic ''invalid memory address or nil pointer dereference''"
    using d x by (rule ImportWallet_nil_pointer) simp
  with d x show ?thesis by simp
qed

section \<open>A consumer that stops reading\<close>

lemma run_inv_start: "run_inv g c k (Wallets_start g k)"
  by (simp add: run_inv_def Wallets_start_def)

lemma run_inv_producer:
  assumes "run_inv g c k s" and "producer_step g c s = Some s'"
  shows "run_inv g c k s'"
proof (cases "pending s")
  case Nil
  with assms show ?thesis
    by (auto simp: run_inv_def producer_step_def split: if_splits)
next
  case (Cons d rest)
  obtain w e where r: "walletFromBytes g c d = Return (w, e)"
    using walletFromBytes_returns by blast
  from assms Cons r show ?thesis
    by (auto simp: run_inv_def producer_step_def deserializes_def wallet_of_def
             split: if_splits)
qed

lemma run_inv_consumer:
  assumes "run_inv g c k s" and "consumer_step s = Some s'"
  shows "run_inv g c k s'"
  using assms
  by (auto simp: run_inv_def consumer_step_def split: nat.splits list.splits)

lemma run_inv_step: "run_inv g c k s \<Longrightarrow> step g c s s' \<Longrightarrow> run_inv g c k s'"
  unfolding step_def using run_inv_producer run_inv_consumer by blast

lemma run_inv_reachable:
  "(step g c)\<^sup>*\<^sup>* (Wallets_start g k) s \<Longrightarrow> run_inv g c k s"
  by (induction rule: rtranclp_induct) (auto intro: run_inv_start run_inv_step)

lemma run_delivers_in_order:
  assumes "(step g c)\<^sup>*\<^sup>* (Wallets_start g k) s"
  shows "Wallets g c =
     Return \<lparr>sent = received s @ buffer s
                     @ map (wallet_of g c) (filter (deserializes g c) (pending s)),
             closed = True\<rparr>"
  using run_inv_reachable [OF assms] by (simp add: Wallets_eq run_inv_def)

lemma run_inv_count:
  assumes "run_inv g c k s"
  shows "length (received s) + length (buffer s) + valid_count g c (pending s)
           = valid_count g c (RetrieveWallets (pkg_store g))"
proof -
  from assms have
    "length (received s @ buffer s
        @ map (wallet_of g c) (filter (deserializes g c) (pending s)))
      = length (map (wallet_of g c)
          (filter (deserializes g c) (RetrieveWallets (pkg_store g))))"
    by (simp only: run_inv_def)
  then show ?thesis by (simp add: valid_count_def)
qed

lemma run_progress:
  assumes inv: "run_inv g c k s"
      and fits: "valid_count g c (RetrieveWallets (pkg_store g)) \<le> k + 1024"
      and nf: "\<not> finished s"
  shows "\<exists>s'. step g c s s'"
proof (cases "pending s")
  case Nil
  with nf show ?thesis by (auto simp: step_def producer_step_def)
next
  case (Cons d rest)
  obtain w e where r: "walletFromBytes g c d = Return (w, e)"
    using walletFromBytes_returns by blast
  show ?thesis
  proof (cases "e = None \<and> \<not> length (buffer s) < 1024")
    case False
    with nf Cons r show ?thesis by (auto simp: step_def producer_step_def)
  next
    case True
    then have d: "deserializes g c d" by (simp add: deserializes_def r)
    from True inv have full: "length (buffer s) = 1024" by (simp add: run_inv_def)
    have "reads_left s \<noteq> 0"
    proof
      assume z: "reads_left s = 0"
      from inv z have "length (received s) = k" by (simp add: run_inv_def)
      moreover from run_inv_count [OF inv] Cons d have
        "valid_count g c (RetrieveWallets (pkg_store g))
           = length (received s) + length (buffer s) + Suc (valid_count g c rest)"
        by (simp add: valid_count_def)
      ultimately show False using fits full by simp
    qed
    then obtain j where j: "reads_left s = Suc j" by (cases "reads_left s") auto
    from full obtain x xs where "buffer s = x # xs" by (cases "buffer s") auto
    with j show ?thesis by (auto simp: step_def consumer_step_def)
  qed
qed

lemma run_never_finished:
  assumes inv: "run_inv g c k s"
      and more: "k + 1024 < valid_count g c (RetrieveWallets (pkg_store g))"
  shows "\<not> finished s"
proof
  assume "finished s"
  with inv have "pending s = []" by (simp add: run_inv_def)
  with run_inv_count [OF inv] have "valid_count g c (RetrieveWallets (pkg_store g))
      = length (received s) + length (buffer s)"
    by (simp add: valid_count_def)
  moreover from inv have "length (buffer s) \<le> 1024" "length (received s) \<le> k"
    by (auto simp: run_inv_def)
  ultimately show False using more by simp
qed

lemma step_decreases: "step g c s s' \<Longrightarrow> run_measure s' < run_measure s"
  unfolding step_def
proof (elim disjE)
  assume p: "producer_step g c s = Some s'"
  show ?thesis
  proof (cases "pending s")
    case Nil
    with p show ?thesis by (auto simp: producer_step_def run_measure_def split: if_splits)
  next
    case (Cons d rest)
    obtain w e where "walletFromBytes g c d = Return (w, e)"
      using walletFromBytes_returns by blast
    with p Cons show ?thesis
      by (auto simp: producer_step_def run_measure_def split: if_splits)
  qed
next
  assume "consumer_step s = Some s'"
  then show ?thesis
    by (auto simp: consumer_step_def run_measure_def split: nat.splits list.splits)
qed

lemma wf_step: "wfP (\<lambda>s' s. step g c s s')"
proof -
  have "{(s', s). step g c s s'} \<subseteq> measure run_measure"
    by (auto simp: step_decreases)
  then have "wf {(s', s). step g c s s'}"
    by (rule wf_subset [OF wf_measure])
  then show ?thesis by (simp add: wfp_def)
qed

lemma producer_fills_queue:
  assumes "\<forall>d \<in> set ds. deserializes g c d"
      and "length (buffer s) + length ds \<le> 1024"
      and "pending s = ds @ rest"
      and "\<not> finished s"
  shows "(step g c)\<^sup>*\<^sup>* s
           (s\<lparr>pending := rest, buffer := buffer s @ map (wallet_of g c) ds\<rparr>)"
  using assms
proof (induction ds arbitrary: s)
  case Nil
  then have "s\<lparr>pending := rest, buffer := buffer s @ map (wallet_of g c) []\<rparr> = s"
    by simp
  then show ?case by simp
next
  case (Cons d ds)
  let ?s1 = "s\<lparr>pending := ds @ rest, buffer := buffer s @ [wallet_of g c d]\<rparr>"
  obtain w e where r: "walletFromBytes g c d = Return (w, e)"
    using walletFromBytes_returns by blast
  from Cons.prems(1) r have e: "e = None" "wallet_of g c d = w"
    by (simp_all add: deserializes_def wallet_of_def)
  from Cons.prems r e have "producer_step g c s = Some ?s1"
    by (simp add: producer_step_def)
  then have one: "step g c s ?s1" by (simp add: step_def)
  have "(step g c)\<^sup>*\<^sup>* ?s1
          (?s1\<lparr>pending := rest, buffer := buffer ?s1 @ map (wallet_of g c) ds\<rparr>)"
    using Cons.prems by (intro Cons.IH) simp_all
  moreover have "?s1\<lparr>pending := rest, buffer := buffer ?s1 @ map (wallet_of g c) ds\<rparr>
      = s\<lparr>pending := rest, buffer := buffer s @ map (wallet_of g c) (d # ds)\<rparr>"
    by simp
  ultimately show ?case using one by (simp add: converse_rtranclp_into_rtranclp)
qed

lemma alice_full:
  "walletFromBytes globals_full toy_collaborators payload_alice
     = Return (wallet_alice_full, None)"
proof -
  have u: "json_Unmarshal_walletInfo toy_collaborators payload_alice
      = (\<lparr>ID = zero_UUID, Name = ''alice'', Type = ''nd''\<rparr>, None)"
    by (simp add: toy_collaborators_def toy_Unmarshal_walletInfo_def)
  show ?thesis
    using walletFromBytes_nd [OF u, of globals_full]
    by (simp add: nd_tags_def toy_collaborators_def globals_full_def store_full_def
          wallet_alice_full_def)
qed

lemma yields_full:
  "RetrieveWallets (pkg_store globals_full) = replicate 1024 payload_alice @ [payload_alice]"
proof -
  have "replicate (1024 + 1) payload_alice
      = replicate 1024 payload_alice @ replicate 1 payload_alice"
    by (rule replicate_add)
  then show ?thesis by (simp add: globals_full_def store_full_def)
qed

lemma deserializes_alice_full: "deserializes globals_full toy_collaborators payload_alice"
  by (simp add: deserializes_def alice_full)

lemma valid_count_full:
  "valid_count globals_full toy_collaborators (RetrieveWallets (pkg_store globals_full)) = 1025"
  by (simp add: valid_count_def yields_full deserializes_alice_full)

text \<open>
  C9, as the claim states it, fails. The store yields 1025 wallets and the consumer
  never receives: the goroutine runs until the queue holds 1024 wallets, and in that
  state it has not closed the channel, it has no step (its send finds the queue full)
  and the consumer has none: it stays blocked on the send.
\<close>

theorem producer_blocked_on_full_queue:
  "(step globals_full toy_collaborators)\<^sup>*\<^sup>* (Wallets_start globals_full 0) blocked_run
   \<and> \<not> finished blocked_run
   \<and> producer_step globals_full toy_collaborators blocked_run = None
   \<and> consumer_step blocked_run = None"
proof -
  let ?s = "Wallets_start globals_full 0 :: toy_wallet run"
  note d = deserializes_alice_full
  have w: "wallet_of globals_full toy_collaborators payload_alice = wallet_alice_full"
    by (simp add: wallet_of_def alice_full)
  have p: "pending ?s = replicate 1024 payload_alice @ [payload_alice]"
    by (simp add: Wallets_start_def yields_full)
  have "(step globals_full toy_collaborators)\<^sup>*\<^sup>* ?s
      (?s\<lparr>pending := [payload_alice],
          buffer := buffer ?s @ map (wallet_of globals_full toy_collaborators)
            (replicate 1024 payload_alice)\<rparr>)"
    using d p by (intro producer_fills_queue) (simp_all add: Wallets_start_def)
  moreover have "?s\<lparr>pending := [payload_alice],
          buffer := buffer ?s @ map (wallet_of globals_full toy_collaborators)
            (replicate 1024 payload_alice)\<rparr> = blocked_run"
    by (simp add: Wallets_start_def blocked_run_def w)
  ultimately have reach:
    "(step globals_full toy_collaborators)\<^sup>*\<^sup>* (Wallets_start globals_full 0) blocked_run"
    by simp
  have stuck: "producer_step globals_full toy_collaborators blocked_run = None"
    by (simp add: producer_step_def blocked_run_def alice_full)
  have idle: "consumer_step blocked_run = None"
    by (simp add: consumer_step_def blocked_run_def)
  have nf: "\<not> finished blocked_run"
    by (simp add: blocked_run_def)
  from reach nf stuck idle show ?thesis by simp
qed

text \<open>
  C9, amended. Let the consumer make \<open>k\<close> receives and then stop. Every run of the
  goroutine and the consumer is finite. When at most \<open>k + 1024\<close> of the store's
  payloads deserialize, a state in which the goroutine has not ended always has a next
  step, so the goroutine closes the channel and ends. When more than \<open>k + 1024\<close>
  deserialize, the goroutine never ends: no state of the run has the channel closed.
\<close>

theorem producer_ends_iff_queue_suffices:
  assumes "(step g c)\<^sup>*\<^sup>* (Wallets_start g k) s"
  shows
    "wfP (\<lambda>s' s. step g c s s')
     \<and> (valid_count g c (RetrieveWallets (pkg_store g)) \<le> k + 1024 \<longrightarrow>
          finished s \<or> (\<exists>s'. step g c s s'))
     \<and> (k + 1024 < valid_count g c (RetrieveWallets (pkg_store g)) \<longrightarrow> \<not> finished s)"
proof -
  from assms have inv: "run_inv g c k s" by (rule run_inv_reachable)
  from inv show ?thesis
    using wf_step [of g c] run_progress [of g c k s] run_never_finished [of g c k s]
    by blast
qed

theorem producer_ends_iff_queue_suffices_witness:
  "(step toy_globals toy_collaborators)\<^sup>*\<^sup>* (Wallets_start toy_globals 0)
      (Wallets_start toy_globals 0 :: toy_wallet run)
   \<and> valid_count toy_globals toy_collaborators (RetrieveWallets (pkg_store toy_globals))
       \<le> 0 + 1024
   \<and> \<not> finished (Wallets_start toy_globals 0 :: toy_wallet run)
   \<and> (\<exists>s'. step toy_globals toy_collaborators (Wallets_start toy_globals 0) s')
   \<and> (step globals_full toy_collaborators)\<^sup>*\<^sup>* (Wallets_start globals_full 0)
      (Wallets_start globals_full 0 :: toy_wallet run)
   \<and> 0 + 1024
       < valid_count globals_full toy_collaborators (RetrieveWallets (pkg_store globals_full))"
proof -
  have r1: "(step toy_globals toy_collaborators)\<^sup>*\<^sup>* (Wallets_start toy_globals 0)
      (Wallets_start toy_globals 0 :: toy_wallet run)"
    by simp
  have r2: "(step globals_full toy_collaborators)\<^sup>*\<^sup>* (Wallets_start globals_full 0)
      (Wallets_start globals_full 0 :: toy_wallet run)"
    by simp
  have n: "valid_count toy_globals toy_collaborators (RetrieveWallets (pkg_store toy_globals))
       \<le> 0 + 1024"
    by (simp add: valid_count_def toy_globals_def store_A_def
          le_trans [OF length_filter_le])
  have m: "0 + 1024
       < valid_count globals_full toy_collaborators (RetrieveWallets (pkg_store globals_full))"
    by (simp add: valid_count_full)
  have nf: "\<not> finished (Wallets_start toy_globals 0 :: toy_wallet run)"
    by (simp add: Wallets_start_def)
  note a = producer_ends_iff_queue_suffices [OF r1]
  note b = producer_ends_iff_queue_suffices [OF r2]
  from a n nf have "\<exists>s'. step toy_globals toy_collaborators (Wallets_start toy_globals 0) s'"
    by blast
  moreover from b m have "\<not> finished (Wallets_start globals_full 0 :: toy_wallet run)"
    by blast
  ultimately show ?thesis using r1 r2 n m nf by blast
qed

end
